theory Spec2Isabelle
  imports Complex_Main "HOL-Library.Char_ord"
begin

section \<open>Data of FilterThread.cpp\<close>

text \<open>
  A \<open>gmic_image<T>\<close> is a pixel buffer with its dimensions. Every image this file builds
  itself is a single row (\<open>gmic_image<char>(1,1,1,1,v)\<close> and \<open>gmic_image<char> it(n)\<close>),
  so an image is modelled by its buffer, whose length is \<open>width()\<close>. A \<open>gmic_list<T>\<close>
  is the list of its images, in order.
\<close>

type_synonym 'a gmic_image = "'a list"
type_synonym 'a gmic_list = "'a gmic_image list"

text \<open>
  \<open>float\<close> values are never computed with in this file: it only stores the constants
  \<open>0.0f\<close> and \<open>-1\<close>, which are exact, so they are modelled as reals.
\<close>

type_synonym float = real

abbreviation NUL :: char where
  "NUL \<equiv> CHR 0x00"

text \<open>
  Modelled from the spec: \<open>gmic_lbrace\<close> is a constant of \<open>gmic.h\<close>, which is not
  part of the sources. The spec calls it the opening-brace character and writes the
  status format as \<open>{token}\<close>.
\<close>

definition gmic_lbrace :: char where
  "gmic_lbrace = CHR ''{''"

text \<open>
  Modelled from the spec: \<open>gmic_rbrace\<close> is a constant of \<open>gmic.h\<close> as well; the spec
  calls it the closing-brace character.
\<close>

definition gmic_rbrace :: char where
  "gmic_rbrace = CHR ''}''"

section \<open>status2Items\<close>

text \<open>
  A \<open>const char *\<close> argument is \<open>None\<close> for the null pointer and otherwise \<open>Some s\<close>,
  where \<open>s\<close> holds the bytes before the terminating NUL, so that \<open>std::strlen\<close> is
  \<open>length\<close>. \<open>deref s\<close> is \<open>*status\<close>, which reads the terminator of the empty string.
\<close>

definition deref :: "string \<Rightarrow> char" where
  "deref s = (case s of [] \<Rightarrow> NUL | c # _ \<Rightarrow> c)"

text \<open>
  One pass through the body of the \<open>for\<close> loop, at index \<open>k < len\<close>, with the locals
  \<open>is_inside\<close>, \<open>pk\<close> and \<open>out\<close>: \<open>Inl r\<close> is \<open>return r\<close> from inside the loop,
  \<open>Inr (k, is_inside, pk, out)\<close> holds the locals at the end of the body, before \<open>++k\<close>.
  The indices are C \<open>int\<close>s. \<open>status[k + 1]\<close> and \<open>status[k + 2]\<close> are read only after
  \<open>k < len - 2\<close>, so every read is in range. The test \<open>'0' <= c && c <= '2'\<close> holds for
  the three bytes 0x30 to 0x32 whether \<open>char\<close> is signed or not.
\<close>

definition loop_body ::
  "string \<Rightarrow> bool \<Rightarrow> int \<Rightarrow> bool \<Rightarrow> int \<Rightarrow> char gmic_list
    \<Rightarrow> char gmic_list + (int \<times> bool \<times> int \<times> char gmic_list)" where
  "loop_body status output_visibility k is_inside pk out =
    (let len = int (length status);
         c = status ! nat k
     in if c = gmic_lbrace then
          (if \<not> is_inside then
             (if k \<ge> len - 1 then Inl []
              else Inr (k, True, k + 1, out))
           else Inr (k, is_inside, pk, out))
        else if c = gmic_rbrace then
          (if \<not> is_inside then Inl []
           else
             (let ck = k;
                  suffix = (k < len - 2 \<and> status ! nat (k + 1) = CHR ''_''
                            \<and> status ! nat (k + 2) \<ge> CHR ''0''
                            \<and> status ! nat (k + 2) \<le> CHR ''2'');
                  k2 = (if suffix then k + 2 else k);
                  visibility = (if suffix then status ! nat k2 else NUL);
                  item = (if output_visibility then [visibility]
                          else take (nat (ck - pk)) (drop (nat pk) status) @ [NUL])
              in Inr (k2, False, pk, out @ [item])))
        else
          (if \<not> is_inside then Inl []
           else Inr (k, is_inside, pk, out)))"

function status2Items_loop ::
  "string \<Rightarrow> bool \<Rightarrow> int \<Rightarrow> bool \<Rightarrow> int \<Rightarrow> char gmic_list \<Rightarrow> char gmic_list" where
  "status2Items_loop status output_visibility k is_inside pk out =
    (if k < int (length status) then
       (case loop_body status output_visibility k is_inside pk out of
          Inl r \<Rightarrow> r
        | Inr (k2, is_inside2, pk2, out2) \<Rightarrow>
            status2Items_loop status output_visibility (k2 + 1) is_inside2 pk2 out2)
     else out)"
  by pat_completeness auto
termination status2Items_loop
proof (relation "measure (\<lambda>(status, output_visibility, k, is_inside, pk, out).
                   nat (int (length status) - k))", goal_cases)
  case 1
  show ?case by simp
next
  case (2 status output_visibility k is_inside pk out x2 k2 y is_inside2 z pk2 out2)
  then have "loop_body status output_visibility k is_inside pk out = Inr (k2, is_inside2, pk2, out2)"
    by simp
  then have "k \<le> k2"
    by (auto simp: loop_body_def Let_def split: if_splits)
  with 2 show ?case by simp
qed

declare status2Items_loop.simps [simp del]

definition status2Items :: "string option \<Rightarrow> bool \<Rightarrow> char gmic_list" where
  "status2Items status output_visibility =
    (case status of
       None \<Rightarrow> []
     | Some s \<Rightarrow>
         if deref s \<noteq> gmic_lbrace then []
         else status2Items_loop s output_visibility 0 False 0 [])"

text \<open>
  The locals \<open>(k, is_inside, pk, out)\<close> at the head of the loop once the body has been
  passed \<open>n\<close> times from the start, or \<open>Inl r\<close> if the function has returned \<open>r\<close>
  from inside the loop by then. Once \<open>k < len\<close> fails the locals stay as they are.
\<close>

fun loop_after ::
  "nat \<Rightarrow> string \<Rightarrow> bool \<Rightarrow> char gmic_list + (int \<times> bool \<times> int \<times> char gmic_list)" where
  "loop_after 0 status output_visibility = Inr (0, False, 0, [])"
| "loop_after (Suc n) status output_visibility =
    (case loop_after n status output_visibility of
       Inl r \<Rightarrow> Inl r
     | Inr (k, is_inside, pk, out) \<Rightarrow>
         if k < int (length status) then
           (case loop_body status output_visibility k is_inside pk out of
              Inl r \<Rightarrow> Inl r
            | Inr (k2, is_inside2, pk2, out2) \<Rightarrow> Inr (k2 + 1, is_inside2, pk2, out2))
         else Inr (k, is_inside, pk, out))"

section \<open>The decoders of FilterThread\<close>

text \<open>
  A \<open>QString\<close> and a \<open>QByteArray\<close> are modelled by their bytes in the local 8-bit
  encoding, so \<open>toLocal8Bit\<close> and \<open>QString::fromLocal8Bit\<close> are the identity.
  \<open>c_str\<close> is what a reader of a \<open>const char *\<close> sees of a buffer: the bytes before
  the first NUL. \<open>constData()\<close> is never the null pointer.
\<close>

definition c_str :: "char list \<Rightarrow> string" where
  "c_str buf = takeWhile (\<lambda>c. c \<noteq> NUL) buf"

definition status2StringList :: "string \<Rightarrow> string list" where
  "status2StringList status =
    (let ba = status;
         clist = status2Items (Some (c_str ba)) False
     in map c_str clist)"

text \<open>
  \<open>AbstractParameter::VisibilityState::Unspecified\<close> is declared in a header that is
  not part of the sources; its integer value is the parameter \<open>Unspecified\<close>.
  \<open>clist(l,0)\<close> is the first pixel of image \<open>l\<close>.
\<close>

definition status2Visibilities :: "int \<Rightarrow> string \<Rightarrow> int list" where
  "status2Visibilities Unspecified status =
    (let ba = status;
         clist = status2Items (Some (c_str ba)) True
     in map (\<lambda>img. let c = img ! 0
                    in if c \<noteq> NUL then int (of_char c) - int (of_char CHR ''0'')
                       else Unspecified) clist)"

section \<open>The thread object\<close>

text \<open>
  The members of \<open>FilterThread\<close>; the member \<open>_x\<close> is the field \<open>m_x\<close>. The three
  heap objects the constructor allocates are owned by the thread alone, so they are
  fields too. \<open>m_startTime\<close> is \<open>None\<close> until the timer is started.
\<close>

record FilterThread =
  m_command :: string
  m_arguments :: string
  m_environment :: string
  m_images :: "float gmic_list"
  m_imageNames :: "char gmic_list"
  m_persistentMemoryOutput :: "char gmic_image"
  m_gmicAbort :: bool
  m_failed :: bool
  m_gmicProgress :: float
  m_gmicStatus :: string
  m_errorMessage :: string
  m_logSuffix :: string
  m_startTime :: "int option"

definition FilterThread_init :: "string \<Rightarrow> string \<Rightarrow> string \<Rightarrow> FilterThread" where
  "FilterThread_init command arguments environment =
    \<lparr> m_command = command, m_arguments = arguments, m_environment = environment,
      m_images = [], m_imageNames = [], m_persistentMemoryOutput = [],
      m_gmicAbort = False, m_failed = False, m_gmicProgress = 0,
      m_gmicStatus = [], m_errorMessage = [], m_logSuffix = [], m_startTime = None \<rparr>"

definition setImageNames :: "char gmic_list \<Rightarrow> FilterThread \<Rightarrow> FilterThread" where
  "setImageNames imageNames t = t\<lparr>m_imageNames := imageNames\<rparr>"

definition setInputImages :: "float gmic_list \<Rightarrow> FilterThread \<Rightarrow> FilterThread" where
  "setInputImages list t = t\<lparr>m_images := list\<rparr>"

definition images :: "FilterThread \<Rightarrow> float gmic_list" where
  "images t = m_images t"

definition imageNames :: "FilterThread \<Rightarrow> char gmic_list" where
  "imageNames t = m_imageNames t"

definition persistentMemoryOutput :: "FilterThread \<Rightarrow> char gmic_image" where
  "persistentMemoryOutput t = m_persistentMemoryOutput t"

definition gmicStatus :: "FilterThread \<Rightarrow> string list" where
  "gmicStatus t = status2StringList (m_gmicStatus t)"

definition parametersVisibilityStates :: "int \<Rightarrow> FilterThread \<Rightarrow> int list" where
  "parametersVisibilityStates Unspecified t = status2Visibilities Unspecified (m_gmicStatus t)"

definition errorMessage :: "FilterThread \<Rightarrow> string" where
  "errorMessage t = m_errorMessage t"

definition failed :: "FilterThread \<Rightarrow> bool" where
  "failed t = m_failed t"

definition aborted :: "FilterThread \<Rightarrow> bool" where
  "aborted t = m_gmicAbort t"

definition progress :: "FilterThread \<Rightarrow> float" where
  "progress t = m_gmicProgress t"

definition setLogSuffix :: "string \<Rightarrow> FilterThread \<Rightarrow> FilterThread" where
  "setLogSuffix text t = t\<lparr>m_logSuffix := text\<rparr>"

definition abortGmic :: "FilterThread \<Rightarrow> FilterThread" where
  "abortGmic t = t\<lparr>m_gmicAbort := True\<rparr>"

section \<open>run\<close>

text \<open>
  The interpreter is outside this file. What \<open>run\<close> hands to it is a \<open>gmic_request\<close>:
  the arguments of the \<open>gmic\<close> constructor, the \<open>set_variable\<close> calls in order (name,
  operator if one is given, value), the command line, and the objects the interpreter
  holds by reference with their values when it is constructed. What comes back is a
  \<open>gmic_outcome\<close>: the referenced objects as they are when the \<open>try\<close> block is left
  (the abort flag may also have been written by the GUI thread meanwhile), and either
  \<open>Throws message\<close>, a \<open>gmic_exception\<close> whose \<open>what()\<close> is \<open>message\<close>, or
  \<open>Completes status persistent\<close>, where \<open>status\<close> is \<open>gmicInstance.status\<close> and
  \<open>persistent\<close> is \<open>get_variable("_persistent")\<close>. Only \<open>gmic_exception\<close> is caught;
  nothing else is modelled as thrown.
\<close>

record gmic_request =
  req_custom_commands :: "string option"
  req_stdlib :: string
  req_variables :: "(string \<times> char option \<times> char gmic_image) list"
  req_commands_line :: string
  req_images :: "float gmic_list"
  req_image_names :: "char gmic_list"
  req_progress :: float
  req_abort :: bool

datatype gmic_result = Throws string | Completes string "char gmic_image"

record gmic_outcome =
  res_images :: "float gmic_list"
  res_image_names :: "char gmic_list"
  res_progress :: float
  res_abort :: bool
  res_result :: gmic_result

text \<open>
  Everything else \<open>run\<close> reads from outside this file: the preamble
  \<open>commandFromOutputMessageMode(Settings::outputMessageMode())\<close>, \<open>appendWithSpace\<close> of
  \<open>Misc.h\<close> (as the function from the two strings to the new value of the first),
  \<open>PersistentMemory::image()\<close>, the constant \<open>gmic_store\<close>,
  \<open>GmicQtHost::ApplicationShortname\<close>, \<open>GmicStdLib::Array\<close>, the clock, and the
  interpreter. The two \<open>Logger\<close> calls write to a log outside the thread object and are
  left out.
\<close>

record externals =
  outputMessageCommand :: string
  appendWithSpace :: "string \<Rightarrow> string \<Rightarrow> string"
  persistentMemoryImage :: "char gmic_image"
  gmic_store :: char
  applicationShortname :: string
  stdLibArray :: string
  clock :: int
  gmic :: "gmic_request \<Rightarrow> gmic_outcome"

definition fullCommand :: "externals \<Rightarrow> FilterThread \<Rightarrow> string" where
  "fullCommand ext t = appendWithSpace ext (m_command t) (m_arguments t)"

text \<open>
  The statements of \<open>run\<close> that come before the interpreter is constructed, as far as
  they write members.
\<close>

definition run_begin :: "externals \<Rightarrow> FilterThread \<Rightarrow> FilterThread" where
  "run_begin ext t =
    (let t = t\<lparr>m_startTime := Some (clock ext)\<rparr>;
         t = t\<lparr>m_errorMessage := []\<rparr>;
         t = t\<lparr>m_failed := False\<rparr>;
         t = t\<lparr>m_gmicAbort := False\<rparr>;
         t = t\<lparr>m_gmicProgress := - 1\<rparr>
     in t)"

text \<open>
  The request \<open>run\<close> builds from the members at that point. \<open>&_gmicProgress\<close> and
  \<open>&_gmicAbort\<close> are passed as the values the members hold.
  \<open>if (PersistentMemory::image())\<close> tests that the image is not empty, and
  \<open>*PersistentMemory::image()\<close> is its first pixel.
\<close>

definition run_request :: "externals \<Rightarrow> FilterThread \<Rightarrow> gmic_request" where
  "run_request ext t =
    (let fullCommandLine = outputMessageCommand ext;
         fullCommandLine = appendWithSpace ext fullCommandLine (m_command t);
         fullCommandLine = appendWithSpace ext fullCommandLine (m_arguments t);
         persistent =
           (if persistentMemoryImage ext \<noteq> [] then
              (if persistentMemoryImage ext ! 0 = gmic_store ext
               then [(''_persistent'', None, persistentMemoryImage ext)]
               else [(''_persistent'', Some CHR ''='', persistentMemoryImage ext)])
            else [])
     in \<lparr> req_custom_commands = (if m_environment t = [] then None else Some (m_environment t)),
          req_stdlib = stdLibArray ext,
          req_variables = persistent @
            [(''_host'', Some CHR ''='', applicationShortname ext),
             (''_tk'', Some CHR ''='', ''qt'')],
          req_commands_line = fullCommandLine,
          req_images = m_images t,
          req_image_names = m_imageNames t,
          req_progress = m_gmicProgress t,
          req_abort = m_gmicAbort t \<rparr>)"

definition run :: "externals \<Rightarrow> FilterThread \<Rightarrow> FilterThread" where
  "run ext t =
    (let t = run_begin ext t;
         res = gmic ext (run_request ext t);
         t = t\<lparr>m_gmicAbort := res_abort res, m_gmicProgress := res_progress res\<rparr>
     in case res_result res of
          Completes status persistent \<Rightarrow>
            t\<lparr>m_images := res_images res, m_imageNames := res_image_names res,
              m_gmicStatus := status, m_persistentMemoryOutput := persistent\<rparr>
        | Throws message \<Rightarrow>
            t\<lparr>m_images := [], m_imageNames := [],
              m_errorMessage := message, m_failed := True\<rparr>)"

section \<open>Sample surroundings\<close>

text \<open>
  Concrete surroundings on which the theorems about \<open>run\<close> are instantiated: a host
  with an empty persistent memory, an interpreter that throws and one that completes,
  and a thread that has been given one image and one name.
\<close>

definition sample_externals :: "(gmic_request \<Rightarrow> gmic_outcome) \<Rightarrow> externals" where
  "sample_externals engine =
    \<lparr> outputMessageCommand = ''v -'',
      appendWithSpace = (\<lambda>str other. if str = [] \<or> other = [] then str @ other
                                       else str @ '' '' @ other),
      persistentMemoryImage = [],
      gmic_store = CHR 0x1D,
      applicationShortname = ''host'',
      stdLibArray = [],
      clock = 0,
      gmic = engine \<rparr>"

definition throwing_engine :: "gmic_request \<Rightarrow> gmic_outcome" where
  "throwing_engine req =
    \<lparr> res_images = req_images req, res_image_names = req_image_names req,
      res_progress = req_progress req, res_abort = req_abort req,
      res_result = Throws ''Unknown command'' \<rparr>"

definition completing_engine :: "gmic_request \<Rightarrow> gmic_outcome" where
  "completing_engine req =
    \<lparr> res_images = req_images req, res_image_names = req_image_names req,
      res_progress = 100, res_abort = req_abort req,
      res_result = Completes ''{1}{2}_0'' ''mem'' \<rparr>"

definition sample_thread :: FilterThread where
  "sample_thread =
    setImageNames [''layer'' @ [NUL]]
      (setInputImages [[0, 1]] (FilterThread_init ''blur'' ''3'' []))"

section \<open>Evaluation\<close>

lemmas status2Items_eval = status2Items_def deref_def gmic_lbrace_def gmic_rbrace_def
  status2Items_loop.simps loop_body_def Let_def

section \<open>The scan, pass by pass\<close>

text \<open>
  The function's result is the result of the loop resumed from the locals reached
  after any number of passes.
\<close>

lemma loop_after_loop:
  "loop_after n status ov = Inr (k, i, pk, out) \<Longrightarrow>
   status2Items_loop status ov 0 False 0 [] = status2Items_loop status ov k i pk out"
proof (induction n arbitrary: k i pk out)
  case 0
  then show ?case by simp
next
  case (Suc n)
  then obtain k0 i0 pk0 out0 where prev: "loop_after n status ov = Inr (k0, i0, pk0, out0)"
    by (auto split: sum.splits)
  have eq0: "status2Items_loop status ov 0 False 0 [] = status2Items_loop status ov k0 i0 pk0 out0"
    by (rule Suc.IH[OF prev])
  show ?case
  proof (cases "k0 < int (length status)")
    case False
    with Suc.prems prev eq0 show ?thesis by simp
  next
    case True
    with Suc.prems prev obtain k2 where
      body: "loop_body status ov k0 i0 pk0 out0 = Inr (k2, i, pk, out)" and k: "k = k2 + 1"
      by (auto split: sum.splits prod.splits)
    have "status2Items_loop status ov k0 i0 pk0 out0 = status2Items_loop status ov k i pk out"
      using True body k by (subst status2Items_loop.simps) simp
    with eq0 show ?thesis by simp
  qed
qed

text \<open>
  At the head of the loop \<open>0 \<le> pk \<le> k \<le> len\<close>: the reads \<open>status[k]\<close> are in range
  and the length \<open>ck - pk\<close> given to \<open>memcpy\<close> is never negative.
\<close>

lemma loop_after_bounds:
  "loop_after n status ov = Inr (k, i, pk, out) \<Longrightarrow>
   0 \<le> pk \<and> pk \<le> k \<and> k \<le> int (length status)"
proof (induction n arbitrary: k i pk out)
  case 0
  then show ?case by simp
next
  case (Suc n)
  then obtain k0 i0 pk0 out0 where prev: "loop_after n status ov = Inr (k0, i0, pk0, out0)"
    by (auto split: sum.splits)
  from Suc.IH[OF prev] have b: "0 \<le> pk0" "pk0 \<le> k0" "k0 \<le> int (length status)"
    by simp_all
  show ?case
  proof (cases "k0 < int (length status)")
    case False
    with Suc.prems prev b show ?thesis by simp
  next
    case True
    with Suc.prems prev obtain k2 where
      body: "loop_body status ov k0 i0 pk0 out0 = Inr (k2, i, pk, out)" and k: "k = k2 + 1"
      by (auto split: sum.splits prod.splits)
    from body True b k show ?thesis
      by (auto simp: loop_body_def Let_def split: if_splits)
  qed
qed

section \<open>Decoding the example status strings\<close>

text \<open>
  Claim C1, as the spec has it: decoded in visibility mode, \<open>{foo}{bar_1}\<close> gives two
  one-character entries, the first with visibility 0 and the second with visibility 1,
  the suffix being written inside the braces. On the code the second entry is 0 as
  well: \<open>status2Items\<close> looks for \<open>_V\<close> in the two characters after the closing brace,
  and here the closing brace is the last character.
\<close>

theorem status2Items_suffix_inside_braces_counterexample:
  "status2Items (Some ''{foo}{bar_1}'') True = [[NUL], [NUL]]
   \<and> status2Items (Some ''{foo}{bar_1}'') True ! 1 \<noteq> [CHR ''1'']
   \<and> status2Items (Some ''{foo}{bar_1}'') True ! 1 \<noteq> [CHR 0x01]"
  by (simp add: status2Items_eval)

text \<open>
  Claim C1, amended: decoded in visibility mode, \<open>{foo}{bar_1}\<close> gives two
  one-character entries, both with visibility 0, since a \<open>_1\<close> inside the braces is
  token text. The visibility suffix stands after the closing brace, \<open>{token}_V\<close> with
  \<open>V\<close> one of \<open>'0'\<close>, \<open>'1'\<close>, \<open>'2'\<close>: \<open>{foo}{bar}_V\<close> gives two one-character
  entries, the first 0 and the second the character \<open>V\<close>. \<open>status2Visibilities\<close> shows
  an entry 0 as \<open>Unspecified\<close> and an entry \<open>'1'\<close> as 1.
\<close>

theorem status2Items_suffix_after_brace:
  "status2Items (Some ''{foo}{bar_1}'') True = [[NUL], [NUL]]
   \<and> status2Items (Some ''{foo}{bar}_0'') True = [[NUL], [CHR ''0'']]
   \<and> status2Items (Some ''{foo}{bar}_1'') True = [[NUL], [CHR ''1'']]
   \<and> status2Items (Some ''{foo}{bar}_2'') True = [[NUL], [CHR ''2'']]
   \<and> status2Visibilities Unspecified ''{foo}{bar_1}'' = [Unspecified, Unspecified]
   \<and> status2Visibilities Unspecified ''{foo}{bar}_1'' = [Unspecified, 1]"
  by (simp add: status2Items_eval status2Visibilities_def c_str_def)

text \<open>
  Claim C2, as the spec has it: decoded in token mode, \<open>{foo}{bar_1}\<close> gives exactly
  the two tokens \<open>foo\<close> and \<open>bar_1\<close>, the \<open>_1\<close> being kept because suffix stripping
  happens only in visibility mode. The result is as said, the rule is not: the code
  fixes the end of the token (\<open>ck = k\<close>) and steps over a suffix (\<open>k+=2\<close>) before it
  looks at the mode, so a suffix after the closing brace is left out of the token in
  token mode as well.
\<close>

theorem status2Items_token_suffix_stripped_counterexample:
  "status2Items (Some ''{foo}{bar}_1'') False = [''foo'' @ [NUL], ''bar'' @ [NUL]]
   \<and> status2StringList ''{foo}{bar}_1'' = [''foo'', ''bar'']
   \<and> status2StringList ''{foo}{bar}_1'' \<noteq> [''foo'', ''bar_1'']
   \<and> status2StringList ''{foo}{bar}_1'' = status2StringList ''{foo}{bar}''"
  by (simp add: status2Items_eval status2StringList_def c_str_def)

text \<open>
  Claim C2, amended: decoded in token mode, \<open>{foo}{bar_1}\<close> gives exactly the two
  tokens \<open>foo\<close> and \<open>bar_1\<close>; the \<open>_1\<close> is part of the second token's text because
  it stands inside the braces. A suffix \<open>_V\<close> directly after a closing brace, with
  \<open>V\<close> one of \<open>'0'\<close>, \<open>'1'\<close>, \<open>'2'\<close>, is left out of the token text in token mode
  too: \<open>{foo}{bar}_V\<close> gives the two tokens \<open>foo\<close> and \<open>bar\<close>. \<open>status2Items\<close>
  returns the tokens as NUL-terminated buffers and \<open>status2StringList\<close> as strings.
\<close>

theorem status2Items_token_example:
  "status2Items (Some ''{foo}{bar_1}'') False = [''foo'' @ [NUL], ''bar_1'' @ [NUL]]
   \<and> status2StringList ''{foo}{bar_1}'' = [''foo'', ''bar_1'']
   \<and> status2Items (Some ''{foo}{bar}_0'') False = [''foo'' @ [NUL], ''bar'' @ [NUL]]
   \<and> status2Items (Some ''{foo}{bar}_1'') False = [''foo'' @ [NUL], ''bar'' @ [NUL]]
   \<and> status2Items (Some ''{foo}{bar}_2'') False = [''foo'' @ [NUL], ''bar'' @ [NUL]]
   \<and> status2StringList ''{foo}{bar}_0'' = [''foo'', ''bar'']
   \<and> status2StringList ''{foo}{bar}_1'' = [''foo'', ''bar'']
   \<and> status2StringList ''{foo}{bar}_2'' = [''foo'', ''bar'']"
  by (simp add: status2Items_eval status2StringList_def c_str_def)

section \<open>Brace-balance violations\<close>

text \<open>
  When the scan is outside a segment and the character it meets is not an opening
  brace (so a closing brace or any other character), the result is the empty list,
  whatever \<open>out\<close> holds. The two characters of a suffix \<open>_V\<close> after a closing brace
  are skipped together with that brace and are never met by the scan.
\<close>

lemma status2Items_stray_outside_segment:
  assumes "loop_after n status ov = Inr (k, False, pk, out)"
    and "k < int (length status)"
    and "status ! nat k \<noteq> gmic_lbrace"
  shows "status2Items (Some status) ov = []"
proof (cases "deref status = gmic_lbrace")
  case False
  then show ?thesis by (simp add: status2Items_def)
next
  case True
  have "status2Items_loop status ov 0 False 0 [] = status2Items_loop status ov k False pk out"
    by (rule loop_after_loop[OF assms(1)])
  also have "\<dots> = []"
    using assms(2,3) by (subst status2Items_loop.simps) (simp add: loop_body_def)
  finally show ?thesis using True by (simp add: status2Items_def)
qed

text \<open>
  When the input ends while the scan is inside a segment, nothing is checked: the loop
  is left and \<open>out\<close> is returned as it is.
\<close>

lemma status2Items_ends_inside_segment:
  assumes "loop_after n status ov = Inr (k, True, pk, out)"
    and "k = int (length status)"
    and "take 1 status = [gmic_lbrace]"
  shows "status2Items (Some status) ov = out"
proof -
  from assms(3) have d: "deref status = gmic_lbrace"
    by (cases status) (simp_all add: deref_def)
  have "status2Items_loop status ov 0 False 0 [] = status2Items_loop status ov k True pk out"
    by (rule loop_after_loop[OF assms(1)])
  also have "\<dots> = out"
    using assms(2) by (subst status2Items_loop.simps) simp
  finally show ?thesis using d by (simp add: status2Items_def)
qed

text \<open>
  Claim C3 says that every brace-balance violation gives the empty list, whatever came
  before it, an opening brace left unterminated at the end of the string included.
  The code on such an input: after the complete segment \<open>{a}\<close>, the unterminated
  \<open>{foo\<close> is not noticed, and the segment before it is returned, in both modes. The
  neighbouring violations after the same segment do give the empty list, and so do the
  two inputs the claim names.
\<close>

theorem status2Items_unterminated_segment_kept:
  "status2Items (Some ''{a}{foo'') False = [''a'' @ [NUL]]
   \<and> status2Items (Some ''{a}{foo'') True = [[NUL]]
   \<and> status2Items (Some ''{a}{'') False = []
   \<and> status2Items (Some ''{a}foo'') False = []
   \<and> status2Items (Some ''{a}}'') False = []
   \<and> status2Items (Some ''{foo'') False = []
   \<and> status2Items (Some ''foo}'') False = []"
  by (simp add: status2Items_eval)

text \<open>
  Claim C10: if the scan, outside a segment, meets an opening brace that is the last
  character of the input, \<open>status2Items\<close> returns the empty list, whatever segments
  \<open>out\<close> already holds. The scan is at index \<open>k\<close> outside a segment with the list \<open>out\<close>
  when those are the locals at the head of the loop after some number of passes. For
  example \<open>{a}{\<close> decodes to the empty list although \<open>{a}\<close> is a complete segment.
\<close>

theorem status2Items_trailing_lbrace:
  assumes "loop_after n status output_visibility = Inr (k, False, pk, out)"
    and "k = int (length status) - 1"
    and "status ! nat k = gmic_lbrace"
  shows "status2Items (Some status) output_visibility = []"
proof (cases "deref status = gmic_lbrace")
  case False
  then show ?thesis by (simp add: status2Items_def)
next
  case True
  have "status2Items_loop status output_visibility 0 False 0 []
        = status2Items_loop status output_visibility k False pk out"
    by (rule loop_after_loop[OF assms(1)])
  also have "\<dots> = []"
    using assms(2,3) by (subst status2Items_loop.simps) (simp add: loop_body_def)
  finally show ?thesis using True by (simp add: status2Items_def)
qed

theorem status2Items_trailing_lbrace_witness:
  "loop_after 3 ''{a}{'' False = Inr (3, False, 1, [''a'' @ [NUL]])
   \<and> (3::int) = int (length ''{a}{'') - 1
   \<and> ''{a}{'' ! nat 3 = gmic_lbrace
   \<and> status2Items (Some ''{a}'') False = [''a'' @ [NUL]]
   \<and> status2Items (Some ''{a}{'') False = []"
proof -
  have a: "loop_after 3 ''{a}{'' False = Inr (3, False, 1, [''a'' @ [NUL]])"
    by code_simp
  have b: "(3::int) = int (length ''{a}{'') - 1" by simp
  have c: "''{a}{'' ! nat 3 = gmic_lbrace" by (simp add: gmic_lbrace_def)
  have d: "status2Items (Some ''{a}'') False = [''a'' @ [NUL]]"
    by (simp add: status2Items_eval)
  from a b c d status2Items_trailing_lbrace[OF a b c] show ?thesis by (intro conjI)
qed

section \<open>Strings that do not start with the opening brace\<close>

text \<open>
  Claim C6: for every string that does not start with the opening-brace character, the
  empty string included, \<open>status2Items\<close> returns the empty list, in token mode and in
  visibility mode.
\<close>

theorem status2Items_no_leading_brace:
  assumes "take 1 s \<noteq> [gmic_lbrace]"
  shows "status2Items (Some s) output_visibility = []"
proof (cases s)
  case Nil
  then show ?thesis by (simp add: status2Items_def deref_def gmic_lbrace_def)
next
  case (Cons c cs)
  with assms show ?thesis by (simp add: status2Items_def deref_def)
qed

theorem status2Items_no_leading_brace_witness:
  "take 1 ''foo}'' \<noteq> [gmic_lbrace]
   \<and> status2Items (Some ''foo}'') False = []
   \<and> status2Items (Some ''foo}'') True = []
   \<and> take 1 '''' \<noteq> [gmic_lbrace]
   \<and> status2Items (Some '''') False = []
   \<and> status2Items (Some '''') True = []"
proof -
  have a: "take 1 ''foo}'' \<noteq> [gmic_lbrace]" by (simp add: gmic_lbrace_def)
  have b: "take 1 '''' \<noteq> [gmic_lbrace]" by simp
  from a b
    status2Items_no_leading_brace[OF a, of False] status2Items_no_leading_brace[OF a, of True]
    status2Items_no_leading_brace[OF b, of False] status2Items_no_leading_brace[OF b, of True]
  show ?thesis by (intro conjI)
qed

section \<open>The two modes extract the same segments\<close>

lemma loop_body_same_shape:
  "length o1 = length o2 \<Longrightarrow>
   (case (loop_body s ov1 k i pk1 o1, loop_body s ov2 k i pk2 o2) of
      (Inl r1, Inl r2) \<Rightarrow> r1 = [] \<and> r2 = []
    | (Inr (ka, ia, pka, oa), Inr (kb, ib, pkb, ob)) \<Rightarrow>
        ka = kb \<and> ia = ib \<and> length oa = length ob
    | _ \<Rightarrow> False)"
  by (simp add: loop_body_def Let_def)

lemma status2Items_loop_length:
  "length o1 = length o2 \<Longrightarrow>
   length (status2Items_loop s ov1 k i pk1 o1) = length (status2Items_loop s ov2 k i pk2 o2)"
proof (induction s ov1 k i pk1 o1 arbitrary: pk2 o2 rule: status2Items_loop.induct)
  case (1 status ov k i pk out)
  note shape = loop_body_same_shape[OF "1.prems", of status ov k i pk ov2 pk2]
  show ?case
  proof (cases "k < int (length status)")
    case False
    then show ?thesis using "1.prems" by (simp add: status2Items_loop.simps)
  next
    case True
    show ?thesis
    proof (cases "loop_body status ov k i pk out")
      case (Inl r1)
      with shape True show ?thesis
        by (subst (1 2) status2Items_loop.simps) (auto split: sum.splits prod.splits)
    next
      case (Inr st)
      obtain ka ia pka oa where st: "st = (ka, ia, pka, oa)" by (cases st)
      from Inr st shape
      obtain pkb ob where b: "loop_body status ov2 k i pk2 o2 = Inr (ka, ia, pkb, ob)"
        and len: "length oa = length ob"
        by (auto split: sum.splits prod.splits)
      have "length (status2Items_loop status ov (ka + 1) ia pka oa)
          = length (status2Items_loop status ov2 (ka + 1) ia pkb ob)"
        using "1.IH"[OF True] Inr st len by simp
      then show ?thesis using True Inr st b
        by (subst (1 2) status2Items_loop.simps) simp
    qed
  qed
qed

text \<open>
  Claim C9: for every input, \<open>status2Items\<close> in token mode and in visibility mode
  return lists of the same length; the mode decides what is put into the list for a
  segment, never how many entries there are.
\<close>

theorem status2Items_modes_same_length:
  "length (status2Items status True) = length (status2Items status False)"
  by (cases status) (simp_all add: status2Items_def status2Items_loop_length)

section \<open>The outcome of run\<close>

lemma run_begin_abortGmic: "run_begin ext (abortGmic t) = run_begin ext t"
  by (simp add: run_begin_def abortGmic_def)

text \<open>
  Claim C4: if the interpreter invocation inside \<open>run\<close> throws a \<open>gmic_exception\<close>,
  then after \<open>run\<close> the failed flag is true, the error message is the exception's
  message, and the image list and the image-name list are both empty.
\<close>

theorem run_throws:
  assumes "res_result (gmic ext (run_request ext (run_begin ext t))) = Throws message"
  shows "failed (run ext t) \<and> errorMessage (run ext t) = message
         \<and> images (run ext t) = [] \<and> imageNames (run ext t) = []"
  using assms
  by (simp add: run_def Let_def failed_def errorMessage_def images_def imageNames_def)

theorem run_throws_witness:
  "images sample_thread \<noteq> [] \<and> imageNames sample_thread \<noteq> []
   \<and> res_result (gmic (sample_externals throwing_engine)
         (run_request (sample_externals throwing_engine)
           (run_begin (sample_externals throwing_engine) sample_thread)))
       = Throws ''Unknown command''
   \<and> failed (run (sample_externals throwing_engine) sample_thread)
   \<and> errorMessage (run (sample_externals throwing_engine) sample_thread) = ''Unknown command''
   \<and> images (run (sample_externals throwing_engine) sample_thread) = []
   \<and> imageNames (run (sample_externals throwing_engine) sample_thread) = []"
proof -
  have h: "res_result (gmic (sample_externals throwing_engine)
         (run_request (sample_externals throwing_engine)
           (run_begin (sample_externals throwing_engine) sample_thread)))
       = Throws ''Unknown command''"
    by (simp add: sample_externals_def throwing_engine_def)
  have i: "images sample_thread \<noteq> []"
    by (simp add: sample_thread_def images_def setImageNames_def setInputImages_def)
  have n: "imageNames sample_thread \<noteq> []"
    by (simp add: sample_thread_def imageNames_def setImageNames_def)
  from i n h run_throws[OF h] show ?thesis by (intro conjI) simp_all
qed

text \<open>
  Claim C5: if the interpreter invocation inside \<open>run\<close> completes without throwing,
  then after \<open>run\<close> the failed flag is false, the error message is empty, the stored
  status string is the interpreter's status, and the persistent-memory output buffer
  holds the value of the interpreter's variable \<open>_persistent\<close>.
\<close>

theorem run_completes:
  assumes "res_result (gmic ext (run_request ext (run_begin ext t)))
           = Completes status persistent"
  shows "\<not> failed (run ext t) \<and> errorMessage (run ext t) = []
         \<and> m_gmicStatus (run ext t) = status
         \<and> persistentMemoryOutput (run ext t) = persistent"
  using assms
  by (simp add: run_def Let_def run_begin_def failed_def errorMessage_def
      persistentMemoryOutput_def)

theorem run_completes_witness:
  "res_result (gmic (sample_externals completing_engine)
         (run_request (sample_externals completing_engine)
           (run_begin (sample_externals completing_engine) sample_thread)))
       = Completes ''{1}{2}_0'' ''mem''
   \<and> \<not> failed (run (sample_externals completing_engine) sample_thread)
   \<and> errorMessage (run (sample_externals completing_engine) sample_thread) = []
   \<and> m_gmicStatus (run (sample_externals completing_engine) sample_thread) = ''{1}{2}_0''
   \<and> persistentMemoryOutput (run (sample_externals completing_engine) sample_thread) = ''mem''"
proof -
  have h: "res_result (gmic (sample_externals completing_engine)
         (run_request (sample_externals completing_engine)
           (run_begin (sample_externals completing_engine) sample_thread)))
       = Completes ''{1}{2}_0'' ''mem''"
    by (simp add: sample_externals_def completing_engine_def)
  from h run_completes[OF h] show ?thesis by (intro conjI) simp_all
qed

section \<open>Progress and abort around the invocation\<close>

text \<open>
  Claim C7, as the spec has it: a freshly constructed \<open>FilterThread\<close>, on which \<open>run\<close>
  has not been called, has progress -1. The constructor stores \<open>0.0f\<close>.
\<close>

theorem progress_fresh_counterexample:
  "progress (FilterThread_init ''blur'' ''3'' '''') = 0
   \<and> progress (FilterThread_init ''blur'' ''3'' '''') \<noteq> - 1"
  by (simp add: progress_def FilterThread_init_def)

text \<open>
  Claim C7, amended: a freshly constructed \<open>FilterThread\<close>, on which \<open>run\<close> has not
  been called, has progress 0. \<open>run\<close> sets the progress to -1 before it invokes the
  interpreter, which therefore starts from the progress value -1.
\<close>

theorem progress_fresh_and_at_invocation:
  "progress (FilterThread_init command arguments environment) = 0
   \<and> progress (run_begin ext t) = - 1
   \<and> req_progress (run_request ext (run_begin ext t)) = - 1"
  by (simp add: progress_def FilterThread_init_def run_begin_def run_request_def Let_def)

text \<open>
  Claim C8: calling \<open>abortGmic\<close> before the invocation raises no error and does not
  set the failed flag; the abort flag is only advisory input to the interpreter.
  \<open>abortGmic\<close> leaves the failed flag and the error message as they are, and a run
  started after it ends as the run without it: whether the run fails is decided by the
  interpreter's outcome alone.
\<close>

theorem abortGmic_advisory:
  "aborted (abortGmic t)
   \<and> failed (abortGmic t) = failed t
   \<and> errorMessage (abortGmic t) = errorMessage t
   \<and> run ext (abortGmic t) = run ext t"
  by (simp add: aborted_def failed_def errorMessage_def run_def run_begin_abortGmic)
    (simp add: abortGmic_def)

end
